theory Spec2Isabelle
  imports Complex_Main
begin

section \<open>Data model of \<open>dataset.py\<close>\<close>

text \<open>
  The class \<open>Dataset\<close> wraps two pandas tables (\<open>data\<close>, the raw table, and
  \<open>features\<close>, a copy of it made by the constructor), an optional \<open>target\<close> series and
  the dictionary \<open>meta\<close>. A table is the list of its columns in column order; a column
  has a label, a dtype and its cells. A missing cell (NA) is \<open>None\<close>. Rows are
  identified by position.

  Exceptions are values of type \<open>error\<close>. The \<^verbatim>\<open>assert\<close> statements of the source raise
  \<open>AssertionError\<close>; the specification calls this error \<open>InvalidSelector\<close> when it
  comes from \<open>select\<close>/\<open>names\<close> and \<open>PreconditionError\<close> when it comes from
  \<open>stepwise_selection\<close>.
\<close>

datatype error = RuntimeError | AssertionError | KeyError | IndexError
  | ValueError | AttributeError

datatype dtype = dt_object | dt_int64 | dt_float64 | dt_bool | dt_uint8

datatype val = Num rat | Str string

type_synonym cell = "val option"

record column =
  cname :: string
  cdtype :: dtype
  cells :: "cell list"

type_synonym table = "column list"

record meta_map =
  m_description :: "(string \<times> dtype \<times> nat) list"
  m_all :: "string list"
  m_features :: "string list"
  m_target :: "string option"
  m_categorical :: "string list"
  m_categorical_na :: "string list"
  m_numerical :: "string list"
  m_numerical_na :: "string list"
  m_complete :: "string list"

record dataset =
  data :: table
  features :: table
  target :: "column option"
  meta :: meta_map

text \<open>A Python value handed to \<open>select\<close> or \<open>names\<close>, or stored under a key of \<open>meta\<close>.\<close>

datatype pyval = PNone | PStr string | PList "string list"

text \<open>What \<open>DataFrame.loc[:, key]\<close> returns: a frame for a list of labels, a series for
  one label that names exactly one column.\<close>

datatype selection = Frame table | Series column

definition meta_tags :: "string list" where
  "meta_tags = [''all'', ''numerical'', ''categorical'', ''complete'',
                ''numerical_na'', ''categorical_na'', ''features'', ''target'']"

section \<open>\<open>metainfo\<close>\<close>

definition isna_sum :: "column \<Rightarrow> nat" where
  "isna_sum c = length (filter (\<lambda>x. x = None) (cells c))"

definition descr :: "table \<Rightarrow> (string \<times> dtype \<times> nat) list" where
  "descr t = map (\<lambda>c. (cname c, cdtype c, isna_sum c)) t"

definition index_where :: "(dtype \<Rightarrow> nat \<Rightarrow> bool) \<Rightarrow> (string \<times> dtype \<times> nat) list \<Rightarrow> string list" where
  "index_where p ds = map fst (filter (\<lambda>(n, dt, k). p dt k) ds)"

definition build_meta :: "dataset \<Rightarrow> meta_map" where
  "build_meta d =
     (let ds = descr (features d) in
      \<lparr> m_description = ds,
        m_all = map cname (data d),
        m_features = map cname (features d),
        m_target = map_option cname (target d),
        m_categorical = index_where (\<lambda>dt k. dt = dt_object) ds,
        m_categorical_na = index_where (\<lambda>dt k. dt = dt_object \<and> k > 0) ds,
        m_numerical = index_where (\<lambda>dt k. dt \<noteq> dt_object) ds,
        m_numerical_na = index_where (\<lambda>dt k. dt \<noteq> dt_object \<and> k > 0) ds,
        m_complete = index_where (\<lambda>dt k. k = 0) ds \<rparr>)"

definition metainfo :: "dataset \<Rightarrow> dataset" where
  "metainfo d = d\<lparr>meta := build_meta d\<rparr>"

text \<open>The constructor, called with a data frame (\<open>from_dataframe\<close>) or with neither a
  location nor a frame.\<close>

definition no_meta :: meta_map where
  "no_meta = \<lparr> m_description = [], m_all = [], m_features = [], m_target = None,
               m_categorical = [], m_categorical_na = [], m_numerical = [],
               m_numerical_na = [], m_complete = [] \<rparr>"

definition init :: "table option \<Rightarrow> error + dataset" where
  "init data_frame =
     (case data_frame of
        None \<Rightarrow> Inl RuntimeError
      | Some df \<Rightarrow> Inr (metainfo \<lparr> data = df, features = df, target = None,
                                    meta = no_meta \<rparr>))"

section \<open>\<open>select\<close> and \<open>names\<close>\<close>

definition meta_get :: "meta_map \<Rightarrow> string \<Rightarrow> pyval" where
  "meta_get m tag =
     (if tag = ''all'' then PList (m_all m)
      else if tag = ''numerical'' then PList (m_numerical m)
      else if tag = ''categorical'' then PList (m_categorical m)
      else if tag = ''complete'' then PList (m_complete m)
      else if tag = ''numerical_na'' then PList (m_numerical_na m)
      else if tag = ''categorical_na'' then PList (m_categorical_na m)
      else if tag = ''features'' then PList (m_features m)
      else (case m_target m of None \<Rightarrow> PNone | Some n \<Rightarrow> PStr n))"

definition in_meta_tags :: "pyval \<Rightarrow> bool" where
  "in_meta_tags which = (case which of PStr s \<Rightarrow> s \<in> set meta_tags | _ \<Rightarrow> False)"

definition loc_list :: "table \<Rightarrow> string list \<Rightarrow> error + table" where
  "loc_list t ns =
     (if list_all (\<lambda>n. n \<in> set (map cname t)) ns
      then Inr (concat (map (\<lambda>n. filter (\<lambda>c. cname c = n) t) ns))
      else Inl KeyError)"

definition loc_key :: "table \<Rightarrow> pyval \<Rightarrow> error + selection" where
  "loc_key t key =
     (case key of
        PList ns \<Rightarrow> (case loc_list t ns of Inl e \<Rightarrow> Inl e | Inr s \<Rightarrow> Inr (Frame s))
      | PStr n \<Rightarrow> (case filter (\<lambda>c. cname c = n) t of
                     [] \<Rightarrow> Inl KeyError
                   | [c] \<Rightarrow> Inr (Series c)
                   | cs \<Rightarrow> Inr (Frame cs))
      | PNone \<Rightarrow> Inl KeyError)"

definition isinstance_list :: "pyval \<Rightarrow> bool" where
  "isinstance_list which = (case which of PList ns \<Rightarrow> True | _ \<Rightarrow> False)"

definition select :: "dataset \<Rightarrow> pyval \<Rightarrow> error + selection" where
  "select d which =
     (if isinstance_list which then loc_key (features d) which
      else if in_meta_tags which
      then (case which of PStr s \<Rightarrow> loc_key (features d) (meta_get (meta d) s)
                        | _ \<Rightarrow> Inl AssertionError)
      else Inl AssertionError)"

definition names :: "dataset \<Rightarrow> pyval \<Rightarrow> error + pyval" where
  "names d which =
     (if in_meta_tags which
      then (case which of PStr s \<Rightarrow> Inr (meta_get (meta d) s) | _ \<Rightarrow> Inl AssertionError)
      else Inl AssertionError)"

section \<open>Mutating operations\<close>

text \<open>
  A mutating method returns either the exception it raises or the dataset as it is after
  the call. \<open>nrows\<close> is \<open>len(frame)\<close>; \<open>setitem\<close> is \<open>frame[label] = values\<close>, which
  overwrites the column of that label or appends a new last column, and raises
  \<open>ValueError\<close> when the number of values is not the number of rows.
\<close>

definition then_do :: "error + 'a \<Rightarrow> ('a \<Rightarrow> error + 'b) \<Rightarrow> error + 'b" where
  "then_do m f = (case m of Inl e \<Rightarrow> Inl e | Inr x \<Rightarrow> f x)"

definition nrows :: "table \<Rightarrow> nat" where
  "nrows t = (case t of [] \<Rightarrow> 0 | c # cs \<Rightarrow> length (cells c))"

definition setitem :: "table \<Rightarrow> column \<Rightarrow> error + table" where
  "setitem t c =
     (if t \<noteq> [] \<and> length (cells c) \<noteq> nrows t then Inl ValueError
      else if cname c \<in> set (map cname t)
      then Inr (map (\<lambda>x. if cname x = cname c then c else x) t)
      else Inr (t @ [c]))"

definition drop_label :: "table \<Rightarrow> string \<Rightarrow> error + table" where
  "drop_label t n =
     (if n \<in> set (map cname t) then Inr (filter (\<lambda>c. cname c \<noteq> n) t) else Inl KeyError)"

definition set_target :: "dataset \<Rightarrow> string \<Rightarrow> error + dataset" where
  "set_target d target_name =
     (if target_name \<in> set (map cname (features d))
      then (case loc_key (features d) (PStr target_name) of
              Inl e \<Rightarrow> Inl e
            | Inr (Frame cs) \<Rightarrow> Inl AttributeError
            | Inr (Series c) \<Rightarrow>
                then_do (drop_label (features d) target_name)
                  (\<lambda>t. Inr (metainfo (d\<lparr>target := Some c, features := t\<rparr>))))
      else (case loc_key (data d) (PStr target_name) of
              Inl e \<Rightarrow> Inl e
            | Inr (Frame cs) \<Rightarrow> Inl AttributeError
            | Inr (Series c) \<Rightarrow> Inr (metainfo (d\<lparr>target := Some c\<rparr>))))"

text \<open>
  \<open>scale\<close> and \<open>ensure_normality\<close> differ only in the transformer handed to the
  \<open>DataFrameMapper\<close> (\<open>StandardScaler\<close>, \<open>PowerTransformer\<close>). The transformer is
  a parameter: it maps the selected frame to the columns of the array it returns, or
  raises. The array becomes a frame with the labels of the selection, of dtype
  \<open>float64\<close>, and is assigned column by column under the names of the tag.
\<close>

fun assign_columns :: "table \<Rightarrow> string list \<Rightarrow> cell list list \<Rightarrow> error + table" where
  "assign_columns t (n # ns) (v # vs) =
     then_do (setitem t \<lparr>cname = n, cdtype = dt_float64, cells = v\<rparr>)
       (\<lambda>t'. assign_columns t' ns vs)"
| "assign_columns t [] [] = Inr t"
| "assign_columns t ns vs = Inl ValueError"

definition transform_features ::
  "(table \<Rightarrow> error + cell list list) \<Rightarrow> dataset \<Rightarrow> pyval \<Rightarrow> error + dataset" where
  "transform_features transformer d features_of_type =
     (if \<not> in_meta_tags features_of_type then Inl AssertionError
      else then_do (select d features_of_type) (\<lambda>subset.
        case subset of
          Series c \<Rightarrow> Inl AttributeError
        | Frame sub \<Rightarrow>
            then_do (transformer sub) (\<lambda>arr.
            then_do (names d features_of_type) (\<lambda>key.
              case key of
                PList ns \<Rightarrow>
                  then_do (assign_columns (features d) ns arr)
                    (\<lambda>t. Inr (metainfo (d\<lparr>features := t\<rparr>)))
              | _ \<Rightarrow> Inl ValueError))))"

definition scale :: "(table \<Rightarrow> error + cell list list) \<Rightarrow> dataset \<Rightarrow> pyval \<Rightarrow> error + dataset" where
  "scale standard_scaler d features_of_type = transform_features standard_scaler d features_of_type"

definition ensure_normality ::
  "(table \<Rightarrow> error + cell list list) \<Rightarrow> dataset \<Rightarrow> pyval \<Rightarrow> error + dataset" where
  "ensure_normality power_transformer d features_of_type =
     transform_features power_transformer d features_of_type"

text \<open>
  \<open>pandas.get_dummies(series, prefix)\<close>: one indicator column of dtype \<open>uint8\<close> per
  level of the series (its distinct non-missing values), labelled
  \<open>prefix_level\<close>. The order in which pandas lists the levels and the string it writes
  for a level are parameters (\<open>level_order\<close>, \<open>level_str\<close>).

  Where a label names several columns, \<open>frame[label]\<close> is a frame and not a series;
  \<open>getitem\<close> raises there, and the theorems about the methods that use it assume
  distinct labels.
\<close>

definition getitem :: "table \<Rightarrow> string \<Rightarrow> error + column" where
  "getitem t n =
     (case loc_key t (PStr n) of
        Inl e \<Rightarrow> Inl e
      | Inr (Series c) \<Rightarrow> Inr c
      | Inr (Frame cs) \<Rightarrow> Inl ValueError)"

definition non_na :: "cell list \<Rightarrow> val list" where
  "non_na cs = concat (map (\<lambda>x. case x of None \<Rightarrow> [] | Some v \<Rightarrow> [v]) cs)"

definition get_dummies ::
  "(val list \<Rightarrow> val list) \<Rightarrow> (val \<Rightarrow> string) \<Rightarrow> column \<Rightarrow> string \<Rightarrow> table" where
  "get_dummies level_order level_str c prefix =
     map (\<lambda>v. \<lparr> cname = prefix @ ''_'' @ level_str v, cdtype = dt_uint8,
                 cells = map (\<lambda>x. Some (Num (if x = Some v then 1 else 0))) (cells c) \<rparr>)
         (level_order (remdups (non_na (cells c))))"

fun encode_loop ::
  "(val list \<Rightarrow> val list) \<Rightarrow> (val \<Rightarrow> string) \<Rightarrow> table \<Rightarrow> table \<Rightarrow> string list
     \<Rightarrow> error + table" where
  "encode_loop level_order level_str feats new_df [] = Inr new_df"
| "encode_loop level_order level_str feats new_df (categorical_column # rest) =
     then_do (getitem feats categorical_column) (\<lambda>c.
       encode_loop level_order level_str feats
         (new_df @ get_dummies level_order level_str c categorical_column) rest)"

definition onehot_encode ::
  "(val list \<Rightarrow> val list) \<Rightarrow> (val \<Rightarrow> string) \<Rightarrow> dataset \<Rightarrow> error + dataset" where
  "onehot_encode level_order level_str d =
     then_do (loc_list (features d) (m_numerical (meta d))) (\<lambda>new_df.
     then_do (encode_loop level_order level_str (features d) new_df (m_categorical (meta d)))
       (\<lambda>new_df'. Inr (metainfo (d\<lparr>features := new_df'\<rparr>))))"

definition add_column :: "dataset \<Rightarrow> column \<Rightarrow> error + dataset" where
  "add_column d serie =
     (if cname serie \<notin> set (m_features (meta d))
      then then_do (setitem (features d) serie) (\<lambda>t. Inr (metainfo (d\<lparr>features := t\<rparr>)))
      else Inr d)"

text \<open>
  \<open>drop_columns\<close> wraps a single name into a list, then drops every listed column
  that \<open>names('features')\<close> contains. The names are those of \<open>meta\<close> as it is when the
  method starts: \<open>metainfo\<close> runs only after the loop.
\<close>

definition as_list :: "pyval \<Rightarrow> string list" where
  "as_list x = (case x of PList ns \<Rightarrow> ns | PStr s \<Rightarrow> [s] | PNone \<Rightarrow> [])"

fun drop_loop :: "string list \<Rightarrow> table \<Rightarrow> string list \<Rightarrow> error + table" where
  "drop_loop feature_names t [] = Inr t"
| "drop_loop feature_names t (column # rest) =
     (if column \<in> set feature_names
      then then_do (drop_label t column) (\<lambda>t'. drop_loop feature_names t' rest)
      else drop_loop feature_names t rest)"

definition drop_columns :: "dataset \<Rightarrow> pyval \<Rightarrow> error + dataset" where
  "drop_columns d columns_list =
     then_do (drop_loop (m_features (meta d)) (features d) (as_list columns_list))
       (\<lambda>t. Inr (metainfo (d\<lparr>features := t\<rparr>)))"

text \<open>
  \<open>keep_columns\<close> drops the set difference of the feature labels and \<open>to_keep\<close>. A
  Python set has no fixed order; the labels are taken here in column order.
\<close>

definition keep_columns :: "dataset \<Rightarrow> pyval \<Rightarrow> error + dataset" where
  "keep_columns d to_keep =
     drop_columns d
       (PList (filter (\<lambda>n. n \<notin> set (as_list to_keep)) (remdups (map cname (features d)))))"

text \<open>
  \<open>aggregate\<close> looks the operation up by name among the attributes of the frame class
  (\<open>frame_attr\<close>, a parameter: \<open>None\<close> for a name that \<open>dir\<close> does not list) and calls
  it with \<open>axis=1\<close> on the listed columns; the resulting series is stored under
  \<open>new_column\<close>.
\<close>

definition aggregate ::
  "(string \<Rightarrow> (table \<Rightarrow> error + dtype \<times> cell list) option) \<Rightarrow> dataset \<Rightarrow> string list
     \<Rightarrow> string \<Rightarrow> string \<Rightarrow> bool \<Rightarrow> error + dataset" where
  "aggregate frame_attr d col_list new_column operation drop_cols =
     (case frame_attr operation of
        None \<Rightarrow> Inl AssertionError
      | Some method \<Rightarrow>
          if \<not> list_all (\<lambda>col_name. col_name \<in> set (map cname (features d))) col_list
          then Inl AssertionError
          else then_do (loc_list (features d) col_list) (\<lambda>sub.
               then_do (method sub) (\<lambda>(dt, vs).
               then_do (setitem (features d) \<lparr>cname = new_column, cdtype = dt, cells = vs\<rparr>)
                 (\<lambda>t. if drop_cols then drop_columns (d\<lparr>features := t\<rparr>) (PList col_list)
                      else Inr (metainfo (d\<lparr>features := t\<rparr>))))))"

text \<open>
  \<open>drop_samples\<close> evaluates \<open>self.data.drop(self.data.index[index_list])\<close> and discards
  the frame that \<open>drop\<close> returns. Taking positions from the index raises \<open>IndexError\<close>
  for a position outside \<open>-n .. n-1\<close>.
\<close>

definition index_take_ok :: "nat \<Rightarrow> int list \<Rightarrow> bool" where
  "index_take_ok n index_list = list_all (\<lambda>i. - int n \<le> i \<and> i < int n) index_list"

definition drop_samples :: "dataset \<Rightarrow> int list \<Rightarrow> error + dataset" where
  "drop_samples d index_list =
     (if index_take_ok (nrows (data d)) index_list then Inr (metainfo d) else Inl IndexError)"

text \<open>
  \<open>replace_na\<close> fills the missing cells of the named columns of \<open>data\<close> in place. The
  dtype of a raw column is left as it is: no method reads the dtypes of \<open>data\<close>.
\<close>

definition fillna :: "val \<Rightarrow> column \<Rightarrow> column" where
  "fillna v c = c\<lparr>cells := map (\<lambda>x. case x of None \<Rightarrow> Some v | Some y \<Rightarrow> Some y) (cells c)\<rparr>"

definition fillna_inplace :: "table \<Rightarrow> string \<Rightarrow> val \<Rightarrow> error + table" where
  "fillna_inplace t col v =
     then_do (getitem t col)
       (\<lambda>c. Inr (map (\<lambda>x. if cname x = col then fillna v x else x) t))"

fun fillna_loop :: "table \<Rightarrow> string list \<Rightarrow> val \<Rightarrow> error + table" where
  "fillna_loop t [] v = Inr t"
| "fillna_loop t (col # rest) v = then_do (fillna_inplace t col v) (\<lambda>t'. fillna_loop t' rest v)"

datatype col_arg = OneCol string | ColList "string list"

definition replace_na :: "dataset \<Rightarrow> col_arg \<Rightarrow> val \<Rightarrow> error + dataset" where
  "replace_na d column v =
     then_do (case column of
                ColList cols \<Rightarrow> fillna_loop (data d) cols v
              | OneCol col \<Rightarrow> fillna_inplace (data d) col v)
       (\<lambda>t. Inr (metainfo (d\<lparr>data := t\<rparr>)))"

section \<open>\<open>under_represented_features\<close>\<close>





section \<open>\<open>stepwise_selection\<close>\<close>

text \<open>
  A p-value is a float: \<open>None\<close> is NaN. \<open>Series.min()\<close> and \<open>Series.max()\<close> skip NaN and
  give NaN when nothing is left; a comparison with NaN is false. \<open>idxmin\<close> gives the
  label of the first entry that holds the minimum; \<open>Series.argmax\<close> is taken as in the
  pandas the method was written for, where it is \<open>idxmax\<close> and gives a label.

  The regression is a parameter: \<open>ols y X\<close> stands for
  \<open>sm.OLS(y, sm.add_constant(X)).fit().pvalues\<close>, the series of p-values with the
  intercept first, or the exception the fit raises. \<open>set_order\<close> is the order in which
  Python lists the elements of a set.
\<close>

type_synonym pvalue = "rat option"

type_synonym pvalues = "(string \<times> pvalue) list"

definition not_nan :: "pvalue list \<Rightarrow> rat list" where
  "not_nan ps = concat (map (\<lambda>p. case p of None \<Rightarrow> [] | Some x \<Rightarrow> [x]) ps)"

definition series_min :: "pvalues \<Rightarrow> pvalue" where
  "series_min s = (case not_nan (map snd s) of [] \<Rightarrow> None | x # xs \<Rightarrow> Some (fold min xs x))"

definition series_max :: "pvalues \<Rightarrow> pvalue" where
  "series_max s = (case not_nan (map snd s) of [] \<Rightarrow> None | x # xs \<Rightarrow> Some (fold max xs x))"

definition idx_of :: "pvalues \<Rightarrow> rat \<Rightarrow> string option" where
  "idx_of s v = map_option fst (find (\<lambda>(n, p). p = Some v) s)"

definition series_get :: "pvalues \<Rightarrow> string \<Rightarrow> error + pvalue" where
  "series_get s n = (case map_of s n of None \<Rightarrow> Inl KeyError | Some p \<Rightarrow> Inr p)"

definition float_lt :: "pvalue \<Rightarrow> rat \<Rightarrow> bool" where
  "float_lt p t = (case p of None \<Rightarrow> False | Some x \<Rightarrow> x < t)"

definition float_gt :: "pvalue \<Rightarrow> rat \<Rightarrow> bool" where
  "float_gt p t = (case p of None \<Rightarrow> False | Some x \<Rightarrow> x > t)"

definition excluded_of :: "(string list \<Rightarrow> string list) \<Rightarrow> dataset \<Rightarrow> string list \<Rightarrow> string list" where
  "excluded_of set_order d included =
     set_order (remdups (filter (\<lambda>n. n \<notin> set included) (map cname (features d))))"

fun forward_fits ::
  "(column option \<Rightarrow> table \<Rightarrow> error + pvalues) \<Rightarrow> dataset \<Rightarrow> string list \<Rightarrow> string list
     \<Rightarrow> error + pvalues" where
  "forward_fits ols d included [] = Inr []"
| "forward_fits ols d included (new_column # rest) =
     then_do (loc_list (features d) (included @ [new_column])) (\<lambda>X.
     then_do (ols (target d) X) (\<lambda>model_pvalues.
     then_do (series_get model_pvalues new_column) (\<lambda>p.
     then_do (forward_fits ols d included rest) (\<lambda>new_pval.
       Inr ((new_column, p) # new_pval)))))"

definition forward_step ::
  "(column option \<Rightarrow> table \<Rightarrow> error + pvalues) \<Rightarrow> (string list \<Rightarrow> string list) \<Rightarrow> dataset
     \<Rightarrow> rat \<Rightarrow> string list \<Rightarrow> error + string list \<times> bool" where
  "forward_step ols set_order d threshold_in included =
     then_do (forward_fits ols d included (excluded_of set_order d included)) (\<lambda>new_pval.
       let best_pval = series_min new_pval in
       if float_lt best_pval threshold_in
       then (case best_pval of
               None \<Rightarrow> Inl ValueError
             | Some b \<Rightarrow> (case idx_of new_pval b of
                           None \<Rightarrow> Inl ValueError
                         | Some best_feature \<Rightarrow> Inr (included @ [best_feature], True)))
       else Inr (included, False))"

definition backward_pvalues ::
  "(column option \<Rightarrow> table \<Rightarrow> error + pvalues) \<Rightarrow> dataset \<Rightarrow> string list \<Rightarrow> error + pvalues" where
  "backward_pvalues ols d included =
     then_do (loc_list (features d) included) (\<lambda>X.
     then_do (ols (target d) X) (\<lambda>model_pvalues. Inr (tl model_pvalues)))"

definition backward_step ::
  "(column option \<Rightarrow> table \<Rightarrow> error + pvalues) \<Rightarrow> dataset \<Rightarrow> rat \<Rightarrow> string list
     \<Rightarrow> error + string list \<times> bool" where
  "backward_step ols d threshold_out included =
     then_do (backward_pvalues ols d included) (\<lambda>pvalues.
       let worst_pval = series_max pvalues in
       if float_gt worst_pval threshold_out
       then (case worst_pval of
               None \<Rightarrow> Inl ValueError
             | Some w \<Rightarrow> (case idx_of pvalues w of
                           None \<Rightarrow> Inl ValueError
                         | Some worst_feature \<Rightarrow>
                             if worst_feature \<in> set included
                             then Inr (remove1 worst_feature included, True)
                             else Inl ValueError))
       else Inr (included, False))"

text \<open>One pass of the body of \<open>while True\<close>: the list after the pass and \<open>changed\<close>.\<close>

definition iteration ::
  "(column option \<Rightarrow> table \<Rightarrow> error + pvalues) \<Rightarrow> (string list \<Rightarrow> string list) \<Rightarrow> dataset
     \<Rightarrow> rat \<Rightarrow> rat \<Rightarrow> string list \<Rightarrow> error + string list \<times> bool" where
  "iteration ols set_order d threshold_in threshold_out included =
     then_do (forward_step ols set_order d threshold_in included) (\<lambda>(inc1, changed1).
     then_do (backward_step ols d threshold_out inc1) (\<lambda>(inc2, changed2).
       Inr (inc2, changed1 \<or> changed2)))"

text \<open>The loop may run forever: \<open>None\<close> is the run that does not return.\<close>

partial_function (option) stepwise_loop ::
  "(column option \<Rightarrow> table \<Rightarrow> error + pvalues) \<Rightarrow> (string list \<Rightarrow> string list) \<Rightarrow> dataset
     \<Rightarrow> rat \<Rightarrow> rat \<Rightarrow> string list \<Rightarrow> (error + string list) option" where
  "stepwise_loop ols set_order d threshold_in threshold_out included =
     (case iteration ols set_order d threshold_in threshold_out included of
        Inl e \<Rightarrow> Some (Inl e)
      | Inr (included', changed) \<Rightarrow>
          if changed then stepwise_loop ols set_order d threshold_in threshold_out included'
          else Some (Inr included'))"

definition stepwise_selection ::
  "(column option \<Rightarrow> table \<Rightarrow> error + pvalues) \<Rightarrow> (string list \<Rightarrow> string list) \<Rightarrow> dataset
     \<Rightarrow> string list option \<Rightarrow> rat \<Rightarrow> rat \<Rightarrow> (error + string list) option" where
  "stepwise_selection ols set_order d initial_list threshold_in threshold_out =
     (let initial = (case initial_list of None \<Rightarrow> [] | Some l \<Rightarrow> l) in
      case names d (PStr ''categorical'') of
        Inl e \<Rightarrow> Some (Inl e)
      | Inr cats \<Rightarrow>
          if length (as_list cats) \<noteq> 0 then Some (Inl AssertionError)
          else stepwise_loop ols set_order d threshold_in threshold_out initial)"

section \<open>Notions used in the statements\<close>

text \<open>The columns of a selection, whether it is a frame or a series.\<close>

definition columns_of :: "selection \<Rightarrow> table" where
  "columns_of s = (case s of Frame cs \<Rightarrow> cs | Series c \<Rightarrow> [c])"

text \<open>A raw column after \<open>replace_na\<close>: as before, or with its missing cells filled.\<close>

definition filled :: "val \<Rightarrow> column \<Rightarrow> column \<Rightarrow> bool" where
  "filled v c c' = (c' = c \<or> c' = fillna v c)"

section \<open>An example dataset\<close>

text \<open>
  The table of the specification's scenario: a numeric column without missing values, a
  categorical column with two missing values, and the target.
\<close>

definition col_A :: column where
  "col_A = \<lparr>cname = ''A'', cdtype = dt_int64, cells = [Some (Num 1), Some (Num 2), Some (Num 3)]\<rparr>"

definition col_B :: column where
  "col_B = \<lparr>cname = ''B'', cdtype = dt_object, cells = [Some (Str ''x''), None, None]\<rparr>"

definition col_y :: column where
  "col_y = \<lparr>cname = ''y'', cdtype = dt_float64,
             cells = [Some (Num 10), Some (Num 20), Some (Num 30)]\<rparr>"

definition example_frame :: table where
  "example_frame = [col_A, col_B, col_y]"

text \<open>The example after \<open>set_target('y')\<close>, and after a series named \<open>y\<close> is added
  again with \<open>add_column\<close>.\<close>

definition example_with_target :: dataset where
  "example_with_target = metainfo \<lparr> data = example_frame, features = [col_A, col_B],
       target = Some col_y, meta = no_meta \<rparr>"

definition example_readded :: dataset where
  "example_readded = metainfo \<lparr> data = example_frame, features = [col_A, col_B, col_y],
       target = Some col_y, meta = no_meta \<rparr>"


text \<open>
  The specification's stepwise scenario: two numeric predictors and a regression whose
  p-value is 0.0001 for \<open>strong\<close> and 0.6 for any other feature, and which raises when
  there is no target. \<open>both_high\<close> is a regression for which every feature has a p-value
  above the usual \<open>threshold_out\<close>: 0.9 for \<open>strong\<close>, 0.8 for the others.
\<close>

definition col_strong :: column where
  "col_strong = \<lparr>cname = ''strong'', cdtype = dt_float64,
                  cells = [Some (Num 1), Some (Num 2), Some (Num 3)]\<rparr>"

definition col_noise :: column where
  "col_noise = \<lparr>cname = ''noise'', cdtype = dt_float64,
                 cells = [Some (Num 5), Some (Num 3), Some (Num 4)]\<rparr>"

definition example_regression :: dataset where
  "example_regression = metainfo \<lparr> data = [col_strong, col_noise, col_y],
       features = [col_strong, col_noise], target = Some col_y, meta = no_meta \<rparr>"

definition example_no_target :: dataset where
  "example_no_target = metainfo \<lparr> data = [col_strong, col_noise, col_y],
       features = [col_strong, col_noise], target = None, meta = no_meta \<rparr>"

definition example_ols :: "column option \<Rightarrow> table \<Rightarrow> error + pvalues" where
  "example_ols y X =
     (case y of
        None \<Rightarrow> Inl ValueError
      | Some t \<Rightarrow> Inr ((''const'', Some 0) #
                    map (\<lambda>c. (cname c, if cname c = ''strong'' then Some (1 / 10000)
                                          else Some (6 / 10))) X))"

definition both_high :: "column option \<Rightarrow> table \<Rightarrow> error + pvalues" where
  "both_high y X =
     Inr ((''const'', Some 0) #
          map (\<lambda>c. (cname c, if cname c = ''strong'' then Some (9 / 10) else Some (8 / 10))) X)"










section \<open>The mutating operations as one type\<close>

text \<open>
  The ten mutating methods with their arguments; \<open>apply_mutation\<close> calls the method.
\<close>

datatype mutation =
    Set_target string
  | Scale "table \<Rightarrow> error + cell list list" pyval
  | Ensure_normality "table \<Rightarrow> error + cell list list" pyval
  | Onehot_encode "val list \<Rightarrow> val list" "val \<Rightarrow> string"
  | Add_column column
  | Drop_columns pyval
  | Keep_columns pyval
  | Aggregate "string \<Rightarrow> (table \<Rightarrow> error + dtype \<times> cell list) option" "string list" string
      string bool
  | Drop_samples "int list"
  | Replace_na col_arg val

fun apply_mutation :: "mutation \<Rightarrow> dataset \<Rightarrow> error + dataset" where
  "apply_mutation (Set_target target_name) d = set_target d target_name"
| "apply_mutation (Scale standard_scaler features_of_type) d =
     scale standard_scaler d features_of_type"
| "apply_mutation (Ensure_normality power_transformer features_of_type) d =
     ensure_normality power_transformer d features_of_type"
| "apply_mutation (Onehot_encode level_order level_str) d = onehot_encode level_order level_str d"
| "apply_mutation (Add_column serie) d = add_column d serie"
| "apply_mutation (Drop_columns columns_list) d = drop_columns d columns_list"
| "apply_mutation (Keep_columns to_keep) d = keep_columns d to_keep"
| "apply_mutation (Aggregate frame_attr col_list new_column operation drop_cols) d =
     aggregate frame_attr d col_list new_column operation drop_cols"
| "apply_mutation (Drop_samples index_list) d = drop_samples d index_list"
| "apply_mutation (Replace_na column v) d = replace_na d column v"

text \<open>
  The meta mapping partitions the columns of a table: \<open>numerical\<close> and \<open>categorical\<close>
  are disjoint, together they are the labels of the table, and a column is in
  \<open>categorical\<close> iff its dtype is \<open>object\<close> and in \<open>numerical\<close> otherwise.
\<close>

definition partitions :: "meta_map \<Rightarrow> table \<Rightarrow> bool" where
  "partitions m t =
     (set (m_numerical m) \<inter> set (m_categorical m) = {}
      \<and> set (m_numerical m) \<union> set (m_categorical m) = set (map cname t)
      \<and> list_all (\<lambda>c. (cname c \<in> set (m_categorical m)) = (cdtype c = dt_object)
                     \<and> (cname c \<in> set (m_numerical m)) = (cdtype c \<noteq> dt_object)) t)"

text \<open>
  pandas allows two columns to carry the same label. \<open>labels_ok\<close> says that columns
  with the same label are of the same kind (both \<open>object\<close> or both not); it holds in
  particular when the labels are distinct.
\<close>

definition labels_ok :: "table \<Rightarrow> bool" where
  "labels_ok t =
     list_all (\<lambda>c. list_all (\<lambda>c'. cname c \<noteq> cname c'
                                   \<or> (cdtype c = dt_object) = (cdtype c' = dt_object)) t) t"

text \<open>A transformer for the examples: every cell of the array is 0.\<close>

definition zero_scaler :: "table \<Rightarrow> error + cell list list" where
  "zero_scaler sub = Inr (map (\<lambda>c. map (\<lambda>x. Some (Num 0)) (cells c)) sub)"

text \<open>The example after \<open>scale('numerical')\<close> with \<open>zero_scaler\<close>.\<close>

definition col_A_scaled :: column where
  "col_A_scaled = \<lparr>cname = ''A'', cdtype = dt_float64,
                    cells = [Some (Num 0), Some (Num 0), Some (Num 0)]\<rparr>"

definition example_initial :: dataset where
  "example_initial = metainfo \<lparr> data = example_frame, features = example_frame,
       target = None, meta = no_meta \<rparr>"

definition example_scaled :: dataset where
  "example_scaled = metainfo \<lparr> data = example_frame, features = [col_A_scaled, col_B],
       target = Some col_y, meta = no_meta \<rparr>"

text \<open>A frame in which the label \<open>a\<close> is carried by a numeric and by an object column.\<close>

definition col_a_int :: column where
  "col_a_int = \<lparr>cname = ''a'', cdtype = dt_int64, cells = [Some (Num 1)]\<rparr>"

definition col_a_obj :: column where
  "col_a_obj = \<lparr>cname = ''a'', cdtype = dt_object, cells = [Some (Str ''x'')]\<rparr>"

definition example_duplicate :: dataset where
  "example_duplicate = metainfo \<lparr> data = [col_a_int, col_a_obj],
       features = [col_a_int, col_a_obj], target = None, meta = no_meta \<rparr>"

section \<open>Selectors\<close>

lemma loc_key_no_assert: "loc_key t key \<noteq> Inl AssertionError"
  by (auto simp: loc_key_def loc_list_def split: pyval.splits sum.splits list.splits)

text \<open>
  Claim C6. \<open>select\<close> raises the assertion error (the specification's
  \<open>InvalidSelector\<close>) exactly when its argument is neither a list nor one of the eight
  tags; \<open>names\<close> raises it exactly when its argument is not one of the eight tags, so
  it rejects every explicit list.
\<close>

theorem select_names_invalid_selector:
  "(select d which = Inl AssertionError) = (\<not> isinstance_list which \<and> \<not> in_meta_tags which)
   \<and> (names d which = Inl AssertionError) = (\<not> in_meta_tags which)
   \<and> names d (PList ns) = Inl AssertionError
   \<and> in_meta_tags (PStr s) =
       (s = ''all'' \<or> s = ''numerical'' \<or> s = ''categorical'' \<or> s = ''complete'' \<or>
        s = ''numerical_na'' \<or> s = ''categorical_na'' \<or> s = ''features'' \<or> s = ''target'')
   \<and> \<not> in_meta_tags PNone"
proof -
  have a: "(select d which = Inl AssertionError) = (\<not> isinstance_list which \<and> \<not> in_meta_tags which)"
    by (cases which) (simp_all add: select_def isinstance_list_def in_meta_tags_def loc_key_no_assert)
  have b: "(names d which = Inl AssertionError) = (\<not> in_meta_tags which)"
    by (cases which) (simp_all add: names_def in_meta_tags_def)
  have c: "names d (PList ns) = Inl AssertionError"
    by (simp add: names_def in_meta_tags_def)
  have e: "in_meta_tags (PStr s) =
       (s = ''all'' \<or> s = ''numerical'' \<or> s = ''categorical'' \<or> s = ''complete'' \<or>
        s = ''numerical_na'' \<or> s = ''categorical_na'' \<or> s = ''features'' \<or> s = ''target'')"
    by (simp add: in_meta_tags_def meta_tags_def)
  have f: "\<not> in_meta_tags PNone" by (simp add: in_meta_tags_def)
  from a b c e f show ?thesis by blast
qed

section \<open>Frame conditions\<close>

text \<open>
  Claim C7. For every index list \<open>drop_samples\<close> either raises \<open>IndexError\<close> (a
  position outside the index) or returns with the raw table, the working table and the
  target as they were, and with the meta mapping that \<open>metainfo\<close> builds from that
  unchanged state: no row is removed.
\<close>

theorem drop_samples_changes_nothing:
  "(case drop_samples d index_list of
      Inl e \<Rightarrow> e = IndexError \<and> \<not> index_take_ok (nrows (data d)) index_list
    | Inr d' \<Rightarrow> data d' = data d \<and> features d' = features d \<and> target d' = target d
               \<and> nrows (data d') = nrows (data d) \<and> meta d' = build_meta d)"
  by (simp add: drop_samples_def metainfo_def)

lemma fillna_idem: "fillna v (fillna v c) = fillna v c"
  by (simp add: fillna_def comp_def split: option.splits)

lemma fillna_cname: "cname (fillna v c) = cname c"
  by (simp add: fillna_def)

lemma fillna_inplace_filled:
  "fillna_inplace t col v = Inr t' \<Longrightarrow> list_all2 (filled v) t t' \<and> map cname t' = map cname t"
  by (auto simp: fillna_inplace_def then_do_def filled_def list_all2_conv_all_nth fillna_cname
      split: sum.splits intro!: nth_equalityI)

lemma filled_trans: "filled v a b \<Longrightarrow> filled v b c \<Longrightarrow> filled v a c"
  by (auto simp: filled_def fillna_idem)

lemma list_all2_filled_trans:
  "list_all2 (filled v) t t' \<Longrightarrow> list_all2 (filled v) t' t'' \<Longrightarrow> list_all2 (filled v) t t''"
  by (rule list_all2_trans[where ?P1.0="filled v" and ?P2.0="filled v"]) (auto intro: filled_trans)

lemma fillna_loop_filled:
  "fillna_loop t cols v = Inr t' \<Longrightarrow> list_all2 (filled v) t t' \<and> map cname t' = map cname t"
proof (induction cols arbitrary: t)
  case Nil
  then show ?case by (simp add: filled_def list_all2_conv_all_nth)
next
  case (Cons col rest)
  from Cons.prems obtain t1 where s: "fillna_inplace t col v = Inr t1"
    and l: "fillna_loop t1 rest v = Inr t'"
    by (auto simp: then_do_def split: sum.splits)
  from fillna_inplace_filled[OF s] Cons.IH[OF l] show ?case
    by (auto intro: list_all2_filled_trans)
qed

lemma getitem_errors: "getitem t n = Inl e \<Longrightarrow> e = KeyError \<or> e = ValueError"
  by (auto simp: getitem_def loc_key_def split: sum.splits selection.splits list.splits)

lemma fillna_inplace_errors: "fillna_inplace t col v = Inl e \<Longrightarrow> e = KeyError \<or> e = ValueError"
  by (auto simp: fillna_inplace_def then_do_def split: sum.splits dest: getitem_errors)

lemma fillna_loop_errors: "fillna_loop t cols v = Inl e \<Longrightarrow> e = KeyError \<or> e = ValueError"
  by (induction cols arbitrary: t)
     (auto simp: then_do_def split: sum.splits dest: fillna_inplace_errors)

lemma build_meta_cong:
  "features d' = features d \<Longrightarrow> target d' = target d \<Longrightarrow> map cname (data d') = map cname (data d)
   \<Longrightarrow> build_meta d' = build_meta d"
  by (simp add: build_meta_def)

text \<open>
  Claim C9. \<open>replace_na\<close> either raises on the lookup of a column of \<open>data\<close>, or returns
  with \<open>features\<close> and \<open>target\<close> unchanged and every column of \<open>data\<close> as before or
  with its missing cells filled. The rebuilt \<open>numerical_na\<close>, \<open>categorical_na\<close> and
  \<open>complete\<close>, and with them the whole rebuilt meta mapping, are what \<open>metainfo\<close> builds
  from the state before the call.
\<close>

theorem replace_na_leaves_features:
  "(case replace_na d column v of
      Inl e \<Rightarrow> e = KeyError \<or> e = ValueError
    | Inr d' \<Rightarrow> features d' = features d \<and> target d' = target d
               \<and> list_all2 (filled v) (data d) (data d')
               \<and> m_numerical_na (meta d') = m_numerical_na (build_meta d)
               \<and> m_categorical_na (meta d') = m_categorical_na (build_meta d)
               \<and> m_complete (meta d') = m_complete (build_meta d)
               \<and> meta d' = build_meta d)"
proof (cases "replace_na d column v")
  case (Inl e)
  then show ?thesis
    by (cases column)
       (auto simp: replace_na_def then_do_def split: sum.splits
             dest: fillna_inplace_errors fillna_loop_errors)
next
  case (Inr d')
  then obtain t where t: "list_all2 (filled v) (data d) t" "map cname t = map cname (data d)"
    and d': "d' = metainfo (d\<lparr>data := t\<rparr>)"
    by (cases column)
       (auto simp: replace_na_def then_do_def split: sum.splits
             dest: fillna_inplace_filled fillna_loop_filled)
  have "build_meta (d\<lparr>data := t\<rparr>) = build_meta d"
    using t(2) by (intro build_meta_cong) simp_all
  with t d' Inr show ?thesis by (simp add: metainfo_def)
qed

section \<open>Lists and tags\<close>

lemmas example_defs = col_A_def col_B_def col_y_def example_frame_def
  example_with_target_def example_readded_def

lemmas eval_defs = init_def metainfo_def build_meta_def descr_def index_where_def isna_sum_def
  no_meta_def set_target_def loc_key_def loc_list_def drop_label_def then_do_def add_column_def
  setitem_def nrows_def select_def names_def meta_get_def in_meta_tags_def meta_tags_def
  isinstance_list_def

text \<open>
  Claim C5, as stated, fails for the tag \<open>target\<close>: \<open>meta['target']\<close> is the name of the
  target (or \<open>None\<close>), not a list. In the example, after \<open>set_target('y')\<close> and
  \<open>add_column\<close> of a series named \<open>y\<close>, \<open>select('target')\<close> returns the column while
  \<open>select(meta['target'])\<close> fails the tag assertion.
\<close>

theorem select_target_counterexample:
  "then_do (then_do (init (Some example_frame)) (\<lambda>d. set_target d ''y''))
       (\<lambda>d. add_column d col_y) = Inr example_readded
   \<and> select example_readded (meta_get (meta example_readded) ''target'') = Inl AssertionError
   \<and> select example_readded (PStr ''target'') = Inr (Series col_y)"
  by (simp add: example_defs eval_defs)

text \<open>
  Claim C5, amended. For each of the seven tags other than \<open>target\<close> the meta entry is
  a list, and \<open>select\<close> of that list is \<open>select\<close> of the tag, errors included. For
  \<open>target\<close>, when the target is set, \<open>select\<close> of the one-element list of its name and
  \<open>select('target')\<close> give the same columns (as a frame and as a series).
\<close>

theorem select_list_eq_tag:
  "(in_meta_tags (PStr tag) \<and> tag \<noteq> ''target''
      \<longrightarrow> isinstance_list (meta_get (meta d) tag)
        \<and> select d (meta_get (meta d) tag) = select d (PStr tag))
   \<and> (m_target (meta d) = Some n
      \<longrightarrow> map_sum id columns_of (select d (PList [n]))
          = map_sum id columns_of (select d (PStr ''target'')))"
proof -
  have a: "in_meta_tags (PStr tag) \<and> tag \<noteq> ''target''
      \<longrightarrow> isinstance_list (meta_get (meta d) tag)
        \<and> select d (meta_get (meta d) tag) = select d (PStr tag)"
    by (auto simp: in_meta_tags_def meta_tags_def meta_get_def select_def isinstance_list_def)
  have b: "m_target (meta d) = Some n
      \<longrightarrow> map_sum id columns_of (select d (PList [n]))
          = map_sum id columns_of (select d (PStr ''target''))"
  proof
    assume t: "m_target (meta d) = Some n"
    have e: "(filter (\<lambda>c. cname c = n) (features d) = []) = (n \<notin> cname ` set (features d))"
      by (auto simp: filter_empty_conv)
    show "map_sum id columns_of (select d (PList [n]))
          = map_sum id columns_of (select d (PStr ''target''))"
    proof (cases "filter (\<lambda>c. cname c = n) (features d)")
      case Nil
      with e t show ?thesis
        by (simp add: in_meta_tags_def meta_tags_def meta_get_def select_def isinstance_list_def
              loc_key_def loc_list_def)
    next
      case (Cons c cs)
      with e have "n \<in> cname ` set (features d)" by simp
      with Cons t show ?thesis
        by (cases cs)
           (simp_all add: in_meta_tags_def meta_tags_def meta_get_def select_def
              isinstance_list_def loc_key_def loc_list_def columns_of_def)
    qed
  qed
  from a b show ?thesis by blast
qed

theorem select_list_eq_tag_witness:
  "in_meta_tags (PStr ''numerical'') \<and> ''numerical'' \<noteq> ''target''
   \<and> select example_readded (meta_get (meta example_readded) ''numerical'')
       = select example_readded (PStr ''numerical'')
   \<and> select example_readded (PStr ''numerical'') = Inr (Frame [col_A, col_y])
   \<and> m_target (meta example_readded) = Some ''y''
   \<and> map_sum id columns_of (select example_readded (PList [''y'']))
       = map_sum id columns_of (select example_readded (PStr ''target''))
   \<and> select example_readded (PList [''y'']) = Inr (Frame [col_y])"
  using select_list_eq_tag [of "''numerical''" example_readded "''y''"]
  by (simp add: example_defs eval_defs)

section \<open>The loop of the stepwise selection\<close>











lemma forward_step_unchanged:
  "forward_step ols set_order d threshold_in included = Inr (inc', False) \<Longrightarrow> inc' = included"
  by (auto simp: forward_step_def then_do_def Let_def split: sum.splits if_splits option.splits)

lemma backward_step_unchanged:
  "backward_step ols d threshold_out included = Inr (inc', False) \<Longrightarrow> inc' = included"
  by (auto simp: backward_step_def then_do_def Let_def split: sum.splits if_splits option.splits)

lemma iteration_Inr:
  "iteration ols set_order d threshold_in threshold_out included = Inr (inc', changed)
   \<Longrightarrow> \<exists>inc1 c1 c2. forward_step ols set_order d threshold_in included = Inr (inc1, c1)
         \<and> backward_step ols d threshold_out inc1 = Inr (inc', c2) \<and> changed = (c1 \<or> c2)"
  unfolding iteration_def then_do_def
  by (cases "forward_step ols set_order d threshold_in included")
     (auto split: sum.splits prod.splits)

lemma iteration_unchanged:
  "iteration ols set_order d threshold_in threshold_out included = Inr (inc', False)
   \<Longrightarrow> inc' = included"
proof -
  assume "iteration ols set_order d threshold_in threshold_out included = Inr (inc', False)"
  from iteration_Inr[OF this] obtain inc1 where
    f: "forward_step ols set_order d threshold_in included = Inr (inc1, False)" and
    b: "backward_step ols d threshold_out inc1 = Inr (inc', False)"
    by auto
  from forward_step_unchanged[OF f] backward_step_unchanged[OF b] show ?thesis by simp
qed

text \<open>The list a run returns is a fixed point of the loop body.\<close>

lemma stepwise_loop_stable:
  assumes "stepwise_loop ols set_order d threshold_in threshold_out included = Some r"
  shows "\<forall>L. r = Inr L
           \<longrightarrow> iteration ols set_order d threshold_in threshold_out L = Inr (L, False)"
proof (rule stepwise_loop.raw_induct[where P="\<lambda>ols set_order d threshold_in threshold_out included r.
    \<forall>L. r = Inr L \<longrightarrow> iteration ols set_order d threshold_in threshold_out L = Inr (L, False)",
    OF _ assms], goal_cases)
  case (1 loop ols set_order d threshold_in threshold_out included r)
  show ?case
  proof (cases "iteration ols set_order d threshold_in threshold_out included")
    case (Inl e)
    with 1(2) show ?thesis by auto
  next
    case (Inr p)
    obtain inc' changed where p: "p = (inc', changed)" by (cases p)
    show ?thesis
    proof (cases changed)
      case True
      with 1(2) Inr p have "loop ols set_order d threshold_in threshold_out inc' = Some r" by simp
      from 1(1)[OF this] show ?thesis .
    next
      case False
      with 1(2) Inr p have r: "r = Inr inc'" by simp
      from False Inr p have "inc' = included" by (auto dest: iteration_unchanged)
      with False Inr p r show ?thesis by simp
    qed
  qed
qed

lemma names_categorical: "names d (PStr ''categorical'') = Inr (PList (m_categorical (meta d)))"
  by (simp add: names_def in_meta_tags_def meta_tags_def meta_get_def)

lemma stepwise_selection_loop:
  "stepwise_selection ols set_order d initial_list threshold_in threshold_out = Some (Inr L)
   \<Longrightarrow> m_categorical (meta d) = []
       \<and> (\<exists>init. stepwise_loop ols set_order d threshold_in threshold_out init = Some (Inr L))"
  by (auto simp: stepwise_selection_def names_categorical as_list_def Let_def split: if_splits)

lemma stepwise_selection_fixed:
  assumes "stepwise_selection ols set_order d initial_list threshold_in threshold_out = Some (Inr L)"
  shows "iteration ols set_order d threshold_in threshold_out L = Inr (L, False)"
proof -
  from stepwise_selection_loop[OF assms] obtain init where
    "stepwise_loop ols set_order d threshold_in threshold_out init = Some (Inr L)" by blast
  from stepwise_loop_stable[OF this] show ?thesis by simp
qed

lemmas regression_defs = col_strong_def col_noise_def col_y_def example_regression_def
  example_no_target_def example_ols_def both_high_def

lemmas stepwise_defs = excluded_of_def forward_step_def backward_step_def backward_pvalues_def
  iteration_def series_min_def series_max_def not_nan_def idx_of_def series_get_def
  float_lt_def float_gt_def metainfo_def build_meta_def descr_def index_where_def isna_sum_def
  no_meta_def loc_list_def then_do_def names_def meta_get_def in_meta_tags_def meta_tags_def
  as_list_def

lemma example_first_pass:
  "iteration example_ols (\<lambda>xs. xs) example_regression (1 / 100) (5 / 100) []
   = Inr ([''strong''], True)"
  by (simp add: regression_defs stepwise_defs)

lemma example_second_pass:
  "iteration example_ols (\<lambda>xs. xs) example_regression (1 / 100) (5 / 100) [''strong'']
   = Inr ([''strong''], False)"
  by (simp add: regression_defs stepwise_defs)

lemma example_categorical: "m_categorical (meta example_regression) = []"
  by (simp add: regression_defs stepwise_defs)

lemma example_run:
  "stepwise_selection example_ols (\<lambda>xs. xs) example_regression None (1 / 100) (5 / 100)
   = Some (Inr [''strong''])"
proof -
  have "stepwise_loop example_ols (\<lambda>xs. xs) example_regression (1 / 100) (5 / 100) [''strong'']
        = Some (Inr [''strong''])"
    by (subst stepwise_loop.simps, subst example_second_pass) simp
  then have "stepwise_loop example_ols (\<lambda>xs. xs) example_regression (1 / 100) (5 / 100) []
        = Some (Inr [''strong''])"
    by (subst stepwise_loop.simps, subst example_first_pass) simp
  then show ?thesis
    by (simp add: stepwise_selection_def names_categorical as_list_def example_categorical)
qed

section \<open>Thresholds of the stepwise selection\<close>






section \<open>Preconditions of the stepwise selection\<close>

text \<open>
  Claim C3, as stated, fails for the unset target: the method asserts only that the
  categorical view is empty. With no target and no categorical column the call goes on
  to the regression. In the example it ends with the \<open>ValueError\<close> that the example
  regression raises for a missing target, and with a regression that does not look at
  the target (\<open>both_high\<close>) it returns a list.
\<close>

theorem stepwise_unset_target_counterexample:
  "target example_no_target = None
   \<and> m_categorical (meta example_no_target) = []
   \<and> stepwise_selection example_ols (\<lambda>xs. xs) example_no_target None (1 / 100) (5 / 100)
       = Some (Inl ValueError)
   \<and> stepwise_selection both_high (\<lambda>xs. xs) example_no_target None (1 / 100) (5 / 100)
       = Some (Inr [])"
proof -
  have a: "iteration example_ols (\<lambda>xs. xs) example_no_target (1 / 100) (5 / 100) []
           = Inl ValueError"
    by (simp add: regression_defs stepwise_defs)
  have b: "iteration both_high (\<lambda>xs. xs) example_no_target (1 / 100) (5 / 100) []
           = Inr ([], False)"
    by (simp add: regression_defs stepwise_defs)
  have c: "m_categorical (meta example_no_target) = []"
    by (simp add: regression_defs stepwise_defs)
  have d: "target example_no_target = None"
    by (simp add: regression_defs stepwise_defs)
  have a': "stepwise_loop example_ols (\<lambda>xs. xs) example_no_target (1 / 100) (5 / 100) []
           = Some (Inl ValueError)"
    by (subst stepwise_loop.simps, subst a) simp
  have b': "stepwise_loop both_high (\<lambda>xs. xs) example_no_target (1 / 100) (5 / 100) []
           = Some (Inr [])"
    by (subst stepwise_loop.simps, subst b) simp
  from a' b' c d show ?thesis
    by (simp add: stepwise_selection_def names_categorical as_list_def)
qed

lemma forward_fits_no_target:
  assumes "\<forall>X. ols None X = Inl e" and "target d = None"
  shows "forward_fits ols d included ex = Inr []
         \<or> forward_fits ols d included ex = Inl e
         \<or> forward_fits ols d included ex = Inl KeyError"
  using assms
  by (cases ex) (auto simp: then_do_def loc_list_def split: sum.splits)

lemma iteration_no_target:
  assumes "\<forall>X. ols None X = Inl e" and "target d = None"
  shows "iteration ols set_order d threshold_in threshold_out included = Inl e
         \<or> iteration ols set_order d threshold_in threshold_out included = Inl KeyError"
proof -
  have b: "backward_step ols d threshold_out included = Inl e
           \<or> backward_step ols d threshold_out included = Inl KeyError"
    using assms
    by (auto simp: backward_step_def backward_pvalues_def then_do_def loc_list_def
             split: sum.splits)
  from assms forward_fits_no_target[of ols e d included "excluded_of set_order d included"]
  have "forward_step ols set_order d threshold_in included = Inr (included, False)
        \<or> forward_step ols set_order d threshold_in included = Inl e
        \<or> forward_step ols set_order d threshold_in included = Inl KeyError"
    by (auto simp: forward_step_def then_do_def series_min_def not_nan_def float_lt_def)
  with b show ?thesis
    by (auto simp: iteration_def then_do_def)
qed

text \<open>
  Claim C3, amended. \<open>stepwise_selection\<close> raises the assertion error (the
  specification's \<open>PreconditionError\<close>) at the call, before any fit, whenever the
  categorical view is non-empty. It makes no check of the target: with an empty
  categorical view it is the loop started on the initial list, and when the target is
  unset and the regression raises \<open>e\<close> for a missing target, the call ends with \<open>e\<close>
  from the first fit, or with the \<open>KeyError\<close> of the column lookup before it.
\<close>

theorem stepwise_preconditions:
  "(m_categorical (meta d) \<noteq> []
      \<longrightarrow> stepwise_selection ols set_order d initial_list threshold_in threshold_out
          = Some (Inl AssertionError))
   \<and> (m_categorical (meta d) = []
      \<longrightarrow> stepwise_selection ols set_order d initial_list threshold_in threshold_out
          = stepwise_loop ols set_order d threshold_in threshold_out
              (case initial_list of None \<Rightarrow> [] | Some l \<Rightarrow> l))
   \<and> (m_categorical (meta d) = [] \<and> target d = None \<and> (\<forall>X. ols None X = Inl e)
      \<longrightarrow> stepwise_selection ols set_order d initial_list threshold_in threshold_out
            = Some (Inl e)
          \<or> stepwise_selection ols set_order d initial_list threshold_in threshold_out
            = Some (Inl KeyError))"
proof (intro conjI impI)
  assume "m_categorical (meta d) \<noteq> []"
  then show "stepwise_selection ols set_order d initial_list threshold_in threshold_out
          = Some (Inl AssertionError)"
    by (simp add: stepwise_selection_def names_categorical as_list_def)
next
  assume "m_categorical (meta d) = []"
  then show "stepwise_selection ols set_order d initial_list threshold_in threshold_out
          = stepwise_loop ols set_order d threshold_in threshold_out
              (case initial_list of None \<Rightarrow> [] | Some l \<Rightarrow> l)"
    by (simp add: stepwise_selection_def names_categorical as_list_def)
next
  assume a: "m_categorical (meta d) = [] \<and> target d = None \<and> (\<forall>X. ols None X = Inl e)"
  let ?init = "case initial_list of None \<Rightarrow> [] | Some l \<Rightarrow> l"
  from a have s: "stepwise_selection ols set_order d initial_list threshold_in threshold_out
          = stepwise_loop ols set_order d threshold_in threshold_out ?init"
    by (simp add: stepwise_selection_def names_categorical as_list_def)
  from a iteration_no_target[of ols e d set_order threshold_in threshold_out ?init]
  have "iteration ols set_order d threshold_in threshold_out ?init = Inl e
        \<or> iteration ols set_order d threshold_in threshold_out ?init = Inl KeyError"
    by blast
  then have "stepwise_loop ols set_order d threshold_in threshold_out ?init = Some (Inl e)
        \<or> stepwise_loop ols set_order d threshold_in threshold_out ?init = Some (Inl KeyError)"
    by (subst (1 2) stepwise_loop.simps) auto
  with s show "stepwise_selection ols set_order d initial_list threshold_in threshold_out
            = Some (Inl e)
          \<or> stepwise_selection ols set_order d initial_list threshold_in threshold_out
            = Some (Inl KeyError)"
    by simp
qed

lemma example_with_target_categorical: "m_categorical (meta example_with_target) = [''B'']"
  by (simp add: example_defs stepwise_defs)

lemma example_no_target_facts:
  "m_categorical (meta example_no_target) = [] \<and> target example_no_target = None
   \<and> (\<forall>X. example_ols None X = Inl ValueError)"
  by (simp add: regression_defs stepwise_defs)

theorem stepwise_preconditions_witness:
  "m_categorical (meta example_with_target) \<noteq> []
   \<and> stepwise_selection example_ols (\<lambda>xs. xs) example_with_target None (1 / 100) (5 / 100)
       = Some (Inl AssertionError)
   \<and> m_categorical (meta example_no_target) = [] \<and> target example_no_target = None
   \<and> (\<forall>X. example_ols None X = Inl ValueError)
   \<and> (stepwise_selection example_ols (\<lambda>xs. xs) example_no_target None (1 / 100) (5 / 100)
         = Some (Inl ValueError)
       \<or> stepwise_selection example_ols (\<lambda>xs. xs) example_no_target None (1 / 100) (5 / 100)
         = Some (Inl KeyError))"
proof -
  have c: "m_categorical (meta example_with_target) \<noteq> []"
    by (simp add: example_with_target_categorical)
  note a = stepwise_preconditions [where d = example_with_target and ols = example_ols
      and set_order = "\<lambda>xs. xs" and initial_list = None and threshold_in = "1 / 100"
      and threshold_out = "5 / 100", THEN conjunct1, THEN mp, OF c]
  note b = stepwise_preconditions [where d = example_no_target and ols = example_ols
      and set_order = "\<lambda>xs. xs" and initial_list = None and threshold_in = "1 / 100"
      and threshold_out = "5 / 100" and e = ValueError,
      THEN conjunct2, THEN conjunct2, THEN mp, OF example_no_target_facts]
  from a b c example_no_target_facts show ?thesis by (intro conjI) simp_all
qed

section \<open>Idempotence of the stepwise selection\<close>

text \<open>
  Claim C4. If a run of \<open>stepwise_selection\<close> returns the list \<open>L\<close>, the run on the same
  dataset with \<open>initial_list = L\<close> and the same thresholds returns \<open>L\<close>, in the same
  order. (This holds for all thresholds, in particular for
  \<open>threshold_in < threshold_out\<close>.)
\<close>

theorem stepwise_selection_idempotent:
  assumes "stepwise_selection ols set_order d initial_list threshold_in threshold_out = Some (Inr L)"
  shows "stepwise_selection ols set_order d (Some L) threshold_in threshold_out = Some (Inr L)"
proof -
  from stepwise_selection_loop[OF assms] have c: "m_categorical (meta d) = []" by simp
  from stepwise_selection_fixed[OF assms]
  have "stepwise_loop ols set_order d threshold_in threshold_out L = Some (Inr L)"
    by (subst stepwise_loop.simps) simp
  with c show ?thesis
    by (simp add: stepwise_selection_def names_categorical as_list_def)
qed

theorem stepwise_selection_idempotent_witness:
  "stepwise_selection example_ols (\<lambda>xs. xs) example_regression None (1 / 100) (5 / 100)
     = Some (Inr [''strong''])
   \<and> stepwise_selection example_ols (\<lambda>xs. xs) example_regression (Some [''strong''])
       (1 / 100) (5 / 100) = Some (Inr [''strong''])"
  using stepwise_selection_idempotent [OF example_run] example_run by simp

section \<open>Under-represented features\<close>








lemma m_categorical_build:
  "m_categorical (build_meta d) = map cname (filter (\<lambda>c. cdtype c = dt_object) (features d))"
  by (simp add: build_meta_def index_where_def descr_def filter_map comp_def)

lemma m_numerical_build:
  "m_numerical (build_meta d) = map cname (filter (\<lambda>c. cdtype c \<noteq> dt_object) (features d))"
  by (simp add: build_meta_def index_where_def descr_def filter_map comp_def)





section \<open>One-hot encoding\<close>



lemma get_dummies_uint8: "c' \<in> set (get_dummies level_order level_str c prefix) \<Longrightarrow> cdtype c' = dt_uint8"
  by (auto simp: get_dummies_def)



lemma example_with_target_wf:
  "meta example_with_target = build_meta example_with_target
   \<and> distinct (map cname (features example_with_target))"
  by (simp add: example_defs metainfo_def build_meta_def)



section \<open>The meta mapping partitions the columns\<close>

lemma labels_ok_iff:
  "labels_ok t = (\<forall>c\<in>set t. \<forall>c'\<in>set t. cname c = cname c'
                     \<longrightarrow> (cdtype c = dt_object) = (cdtype c' = dt_object))"
  by (auto simp: labels_ok_def list_all_iff)

lemma labels_ok_subset: "labels_ok t \<Longrightarrow> set t' \<subseteq> set t \<Longrightarrow> labels_ok t'"
  unfolding labels_ok_iff by blast

lemma labels_ok_distinct: "distinct (map cname t) \<Longrightarrow> labels_ok t"
proof -
  assume "distinct (map cname t)"
  then have "inj_on cname (set t)" by (simp add: distinct_map)
  then have "\<And>a b. a \<in> set t \<Longrightarrow> b \<in> set t \<Longrightarrow> cname a = cname b \<Longrightarrow> a = b"
    by (rule inj_onD)
  then show ?thesis unfolding labels_ok_iff by blast
qed

lemma labels_ok_numeric: "\<forall>c\<in>set t. cdtype c \<noteq> dt_object \<Longrightarrow> labels_ok t"
  unfolding labels_ok_iff by blast

lemma build_meta_partitions:
  assumes "labels_ok (features d)"
  shows "partitions (build_meta d) (features d)"
proof -
  let ?t = "features d"
  have c: "set (m_categorical (build_meta d)) = cname ` {c \<in> set ?t. cdtype c = dt_object}"
    by (simp add: m_categorical_build)
  have n: "set (m_numerical (build_meta d)) = cname ` {c \<in> set ?t. cdtype c \<noteq> dt_object}"
    by (simp add: m_numerical_build)
  from assms have ok: "\<And>a b. a \<in> set ?t \<Longrightarrow> b \<in> set ?t \<Longrightarrow> cname a = cname b
       \<Longrightarrow> (cdtype a = dt_object) = (cdtype b = dt_object)"
    unfolding labels_ok_iff by blast
  have 1: "set (m_numerical (build_meta d)) \<inter> set (m_categorical (build_meta d)) = {}"
    unfolding c n using ok by blast
  have 2: "set (m_numerical (build_meta d)) \<union> set (m_categorical (build_meta d))
           = set (map cname ?t)"
    unfolding c n by auto
  have 3: "\<And>x. x \<in> set ?t \<Longrightarrow>
             (cname x \<in> set (m_categorical (build_meta d))) = (cdtype x = dt_object)
           \<and> (cname x \<in> set (m_numerical (build_meta d))) = (cdtype x \<noteq> dt_object)"
    unfolding c n using ok by blast
  from 1 2 3 show ?thesis
    unfolding partitions_def list_all_iff by blast
qed

lemma build_meta_metainfo: "build_meta (metainfo x) = build_meta x"
  by (simp add: metainfo_def build_meta_def)

lemma meta_metainfo: "meta (metainfo x) = build_meta (metainfo x)"
  by (simp add: metainfo_def build_meta_def)

lemma features_metainfo: "features (metainfo x) = features x"
  by (simp add: metainfo_def)

lemma setitem_labels_ok:
  assumes "labels_ok t" and "setitem t c = Inr t'"
  shows "labels_ok t'"
proof (cases "cname c \<in> set (map cname t)")
  case True
  with assms(2) have t': "t' = map (\<lambda>x. if cname x = cname c then c else x) t"
    by (auto simp: setitem_def split: if_splits)
  have m: "\<And>a. a \<in> set t' \<Longrightarrow> (a = c) \<or> (a \<in> set t \<and> cname a \<noteq> cname c)"
    unfolding t' by auto
  show ?thesis
    unfolding labels_ok_iff
  proof (intro ballI impI)
    fix a b
    assume a: "a \<in> set t'" and b: "b \<in> set t'" and e: "cname a = cname b"
    from m[OF a] m[OF b] e have "(a = c \<and> b = c) \<or> (a \<in> set t \<and> b \<in> set t)"
      by auto
    with assms(1) e show "(cdtype a = dt_object) = (cdtype b = dt_object)"
      unfolding labels_ok_iff by blast
  qed
next
  case False
  with assms(2) have t': "t' = t @ [c]"
    by (auto simp: setitem_def split: if_splits)
  have n: "\<And>a. a \<in> set t \<Longrightarrow> cname a \<noteq> cname c"
  proof
    fix a assume "a \<in> set t" and "cname a = cname c"
    then have "cname c \<in> cname ` set t" by (intro image_eqI[where x = a]) simp_all
    with False show False by simp
  qed
  show ?thesis
    unfolding labels_ok_iff
  proof (intro ballI impI)
    fix a b
    assume a: "a \<in> set t'" and b: "b \<in> set t'" and e: "cname a = cname b"
    from a b have "(a = c \<or> a \<in> set t) \<and> (b = c \<or> b \<in> set t)"
      unfolding t' by auto
    with n e have "(a = c \<and> b = c) \<or> (a \<in> set t \<and> b \<in> set t)"
      by metis
    with assms(1) e show "(cdtype a = dt_object) = (cdtype b = dt_object)"
      unfolding labels_ok_iff by blast
  qed
qed

lemma assign_columns_labels_ok:
  "labels_ok t \<Longrightarrow> assign_columns t ns vs = Inr t' \<Longrightarrow> labels_ok t'"
proof (induction t ns vs arbitrary: t' rule: assign_columns.induct)
  case (1 t n ns v vs)
  from "1.prems"(2) obtain t1 where
    s: "setitem t \<lparr>cname = n, cdtype = dt_float64, cells = v\<rparr> = Inr t1" and
    r: "assign_columns t1 ns vs = Inr t'"
    by (auto simp: then_do_def split: sum.splits)
  from setitem_labels_ok[OF "1.prems"(1) s] have "labels_ok t1" .
  from "1.IH"[OF this r] show ?case .
qed simp_all

lemma drop_label_subset: "drop_label t n = Inr t' \<Longrightarrow> set t' \<subseteq> set t"
  by (auto simp: drop_label_def split: if_splits)

lemma drop_loop_subset: "drop_loop feature_names t cs = Inr t' \<Longrightarrow> set t' \<subseteq> set t"
proof (induction cs arbitrary: t)
  case Nil
  then show ?case by simp
next
  case (Cons c cs)
  show ?case
  proof (cases "c \<in> set feature_names")
    case True
    with Cons.prems obtain t1 where d: "drop_label t c = Inr t1"
      and l: "drop_loop feature_names t1 cs = Inr t'"
      by (auto simp: then_do_def split: sum.splits)
    from drop_label_subset[OF d] Cons.IH[OF l] show ?thesis by blast
  next
    case False
    with Cons.prems have "drop_loop feature_names t cs = Inr t'" by simp
    from Cons.IH[OF this] show ?thesis .
  qed
qed

lemma loc_list_members:
  "loc_list t ns = Inr s \<Longrightarrow> c \<in> set s \<Longrightarrow> c \<in> set t \<and> cname c \<in> set ns"
  by (auto simp: loc_list_def split: if_splits)

lemma encode_loop_members:
  "encode_loop level_order level_str feats new_df cs = Inr r \<Longrightarrow> c \<in> set r
   \<Longrightarrow> c \<in> set new_df \<or> cdtype c = dt_uint8"
proof (induction cs arbitrary: new_df)
  case Nil
  then show ?case by simp
next
  case (Cons a cs)
  from Cons.prems(1) obtain col where
    l: "encode_loop level_order level_str feats
          (new_df @ get_dummies level_order level_str col a) cs = Inr r"
    by (auto simp: then_do_def split: sum.splits)
  from Cons.IH[OF l Cons.prems(2)] show ?case
    by (auto dest: get_dummies_uint8)
qed

text \<open>The state every mutator is meant to leave: current meta, consistent labels.\<close>

lemma consistent_metainfo:
  "labels_ok (features x) \<Longrightarrow>
   meta (metainfo x) = build_meta (metainfo x) \<and> labels_ok (features (metainfo x))"
  by (simp add: meta_metainfo features_metainfo)

lemma set_target_consistent:
  assumes "labels_ok (features d)" and "set_target d target_name = Inr d'"
  shows "meta d' = build_meta d' \<and> labels_ok (features d')"
proof (cases "target_name \<in> set (map cname (features d))")
  case True
  with assms(2) obtain c t where "drop_label (features d) target_name = Inr t"
    and d': "d' = metainfo (d\<lparr>target := Some c, features := t\<rparr>)"
    by (auto simp: set_target_def then_do_def split: sum.splits selection.splits if_splits)
  from drop_label_subset[OF this(1)] assms(1) have "labels_ok t" by (rule labels_ok_subset[rotated])
  then show ?thesis unfolding d' by (intro consistent_metainfo) simp
next
  case False
  with assms(2) obtain c where d': "d' = metainfo (d\<lparr>target := Some c\<rparr>)"
    by (auto simp: set_target_def split: sum.splits selection.splits if_splits)
  from assms(1) show ?thesis unfolding d' by (intro consistent_metainfo) simp
qed

lemma transform_features_consistent:
  assumes "labels_ok (features d)" and "transform_features transformer d tag = Inr d'"
  shows "meta d' = build_meta d' \<and> labels_ok (features d')"
proof -
  from assms(2) obtain ns arr t where a: "assign_columns (features d) ns arr = Inr t"
    and d': "d' = metainfo (d\<lparr>features := t\<rparr>)"
    by (auto simp: transform_features_def then_do_def
             split: sum.splits selection.splits pyval.splits if_splits)
  from assign_columns_labels_ok[OF assms(1) a] show ?thesis
    unfolding d' by (intro consistent_metainfo) simp
qed

lemma onehot_encode_consistent:
  assumes "meta d = build_meta d" and "labels_ok (features d)"
    and "onehot_encode level_order level_str d = Inr d'"
  shows "meta d' = build_meta d' \<and> labels_ok (features d')"
proof -
  from assms(3) obtain new_df r where
    l: "loc_list (features d) (m_numerical (meta d)) = Inr new_df" and
    e: "encode_loop level_order level_str (features d) new_df (m_categorical (meta d)) = Inr r"
    and d': "d' = metainfo (d\<lparr>features := r\<rparr>)"
    by (auto simp: onehot_encode_def then_do_def split: sum.splits)
  have num: "\<And>c. c \<in> set new_df \<Longrightarrow> cdtype c \<noteq> dt_object"
  proof -
    fix c assume c: "c \<in> set new_df"
    from loc_list_members[OF l c] have ct: "c \<in> set (features d)"
      and "cname c \<in> set (m_numerical (meta d))" by simp_all
    then obtain c' where c': "c' \<in> set (features d)" "cdtype c' \<noteq> dt_object"
      "cname c' = cname c"
      unfolding assms(1) m_numerical_build by auto
    with assms(2) ct show "cdtype c \<noteq> dt_object"
      unfolding labels_ok_iff by blast
  qed
  have "\<forall>c\<in>set r. cdtype c \<noteq> dt_object"
  proof
    fix c assume "c \<in> set r"
    from encode_loop_members[OF e this] num show "cdtype c \<noteq> dt_object" by auto
  qed
  then have "labels_ok r" by (rule labels_ok_numeric)
  then show ?thesis unfolding d' by (intro consistent_metainfo) simp
qed

lemma add_column_consistent:
  assumes "meta d = build_meta d" and "labels_ok (features d)" and "add_column d serie = Inr d'"
  shows "meta d' = build_meta d' \<and> labels_ok (features d')"
proof (cases "cname serie \<notin> set (m_features (meta d))")
  case True
  with assms(3) obtain t where s: "setitem (features d) serie = Inr t"
    and d': "d' = metainfo (d\<lparr>features := t\<rparr>)"
    by (auto simp: add_column_def then_do_def split: sum.splits)
  from setitem_labels_ok[OF assms(2) s] show ?thesis
    unfolding d' by (intro consistent_metainfo) simp
next
  case False
  with assms(3) have "d' = d" by (simp add: add_column_def)
  with assms(1,2) show ?thesis by simp
qed

lemma drop_columns_consistent:
  assumes "labels_ok (features d)" and "drop_columns d columns_list = Inr d'"
  shows "meta d' = build_meta d' \<and> labels_ok (features d')"
proof -
  from assms(2) obtain t where
    l: "drop_loop (m_features (meta d)) (features d) (as_list columns_list) = Inr t"
    and d': "d' = metainfo (d\<lparr>features := t\<rparr>)"
    by (auto simp: drop_columns_def then_do_def split: sum.splits)
  from drop_loop_subset[OF l] assms(1) have "labels_ok t" by (rule labels_ok_subset[rotated])
  then show ?thesis unfolding d' by (intro consistent_metainfo) simp
qed

lemma aggregate_consistent:
  assumes "labels_ok (features d)"
    and "aggregate frame_attr d col_list new_column operation drop_cols = Inr d'"
  shows "meta d' = build_meta d' \<and> labels_ok (features d')"
proof -
  from assms(2) obtain dt vs t where
    s: "setitem (features d) \<lparr>cname = new_column, cdtype = dt, cells = vs\<rparr> = Inr t" and
    r: "(if drop_cols then drop_columns (d\<lparr>features := t\<rparr>) (PList col_list)
         else Inr (metainfo (d\<lparr>features := t\<rparr>))) = Inr d'"
    by (auto simp: aggregate_def then_do_def split: option.splits sum.splits if_splits prod.splits)
  from setitem_labels_ok[OF assms(1) s] have t: "labels_ok (features (d\<lparr>features := t\<rparr>))"
    by simp
  show ?thesis
  proof (cases drop_cols)
    case True
    with r have "drop_columns (d\<lparr>features := t\<rparr>) (PList col_list) = Inr d'" by simp
    from drop_columns_consistent[OF t this] show ?thesis .
  next
    case False
    with r have "d' = metainfo (d\<lparr>features := t\<rparr>)" by simp
    with t show ?thesis by (simp add: consistent_metainfo)
  qed
qed

lemma drop_samples_consistent:
  assumes "labels_ok (features d)" and "drop_samples d index_list = Inr d'"
  shows "meta d' = build_meta d' \<and> labels_ok (features d')"
proof -
  from assms(2) have "d' = metainfo d" by (auto simp: drop_samples_def split: if_splits)
  with assms(1) show ?thesis by (simp add: consistent_metainfo)
qed

lemma replace_na_consistent:
  assumes "labels_ok (features d)" and "replace_na d column v = Inr d'"
  shows "meta d' = build_meta d' \<and> labels_ok (features d')"
proof -
  from assms(2) obtain t where d': "d' = metainfo (d\<lparr>data := t\<rparr>)"
    by (auto simp: replace_na_def then_do_def split: sum.splits)
  from assms(1) show ?thesis unfolding d' by (intro consistent_metainfo) simp
qed

lemma apply_mutation_consistent:
  assumes "meta d = build_meta d" and "labels_ok (features d)"
    and "apply_mutation mut d = Inr d'"
  shows "meta d' = build_meta d' \<and> labels_ok (features d')"
proof (cases mut)
  case (Set_target n)
  with assms(3) have "set_target d n = Inr d'" by simp
  from set_target_consistent[OF assms(2) this] show ?thesis .
next
  case (Scale tr tag)
  with assms(3) have "transform_features tr d tag = Inr d'" by (simp add: scale_def)
  from transform_features_consistent[OF assms(2) this] show ?thesis .
next
  case (Ensure_normality tr tag)
  with assms(3) have "transform_features tr d tag = Inr d'" by (simp add: ensure_normality_def)
  from transform_features_consistent[OF assms(2) this] show ?thesis .
next
  case (Onehot_encode lo ls)
  with assms(3) have "onehot_encode lo ls d = Inr d'" by simp
  from onehot_encode_consistent[OF assms(1,2) this] show ?thesis .
next
  case (Add_column s)
  with assms(3) have "add_column d s = Inr d'" by simp
  from add_column_consistent[OF assms(1,2) this] show ?thesis .
next
  case (Drop_columns cl)
  with assms(3) have "drop_columns d cl = Inr d'" by simp
  from drop_columns_consistent[OF assms(2) this] show ?thesis .
next
  case (Keep_columns k)
  with assms(3) have "drop_columns d
      (PList (filter (\<lambda>n. n \<notin> set (as_list k)) (remdups (map cname (features d))))) = Inr d'"
    by (simp add: keep_columns_def)
  from drop_columns_consistent[OF assms(2) this] show ?thesis .
next
  case (Aggregate fa cl nc op dc)
  with assms(3) have "aggregate fa d cl nc op dc = Inr d'" by simp
  from aggregate_consistent[OF assms(2) this] show ?thesis .
next
  case (Drop_samples il)
  with assms(3) have "drop_samples d il = Inr d'" by simp
  from drop_samples_consistent[OF assms(2) this] show ?thesis .
next
  case (Replace_na c v)
  with assms(3) have "replace_na d c v = Inr d'" by simp
  from replace_na_consistent[OF assms(2) this] show ?thesis .
qed

text \<open>
  Claim C1, as stated, fails for a frame in which one label is carried by a numeric and
  by an object column (pandas allows it, and \<open>from_dataframe\<close> takes any frame): the
  label is then in \<open>numerical\<close> and in \<open>categorical\<close>, also after a mutating operation.
\<close>

theorem duplicate_label_counterexample:
  "init (Some [col_a_int, col_a_obj]) = Inr example_duplicate
   \<and> apply_mutation (Drop_samples []) example_duplicate = Inr example_duplicate
   \<and> m_numerical (meta example_duplicate) = [''a'']
   \<and> m_categorical (meta example_duplicate) = [''a'']
   \<and> set (m_numerical (meta example_duplicate)) \<inter> set (m_categorical (meta example_duplicate))
       \<noteq> {}
   \<and> \<not> partitions (meta example_duplicate) (features example_duplicate)"
  by (simp add: example_duplicate_def col_a_int_def col_a_obj_def eval_defs drop_samples_def
        index_take_ok_def partitions_def)

text \<open>
  Claim C1, amended. Call a table's labels consistent when columns with the same label are of
  the same kind, as they are when the labels are distinct. For a working table with
  consistent labels the meta mapping that \<open>metainfo\<close> rebuilds partitions the columns:
  \<open>numerical\<close> and \<open>categorical\<close> are disjoint, their union is the set of labels of
  \<open>features\<close>, and a column is in \<open>categorical\<close> iff its dtype is \<open>object\<close> and in
  \<open>numerical\<close> otherwise. The constructor establishes, and each of the ten mutating
  operations that returns preserves, the state in which \<open>meta\<close> is the rebuilt mapping
  and the labels are consistent; so the partition holds after every one of them.
\<close>

theorem meta_partitions_columns:
  "(labels_ok (features d) \<longrightarrow> partitions (meta (metainfo d)) (features (metainfo d)))
   \<and> (labels_ok df \<longrightarrow>
         (\<exists>d0. init (Some df) = Inr d0 \<and> meta d0 = build_meta d0 \<and> labels_ok (features d0)
               \<and> partitions (meta d0) (features d0)))
   \<and> (meta d = build_meta d \<and> labels_ok (features d) \<and> apply_mutation mut d = Inr d'
         \<longrightarrow> meta d' = build_meta d' \<and> labels_ok (features d')
             \<and> partitions (meta d') (features d'))
   \<and> (distinct (map cname t) \<longrightarrow> labels_ok t)"
proof -
  have 1: "labels_ok (features d) \<longrightarrow> partitions (meta (metainfo d)) (features (metainfo d))"
    using build_meta_partitions[of "metainfo d"]
    by (simp add: meta_metainfo features_metainfo)
  have 2: "labels_ok df \<longrightarrow>
         (\<exists>d0. init (Some df) = Inr d0 \<and> meta d0 = build_meta d0 \<and> labels_ok (features d0)
               \<and> partitions (meta d0) (features d0))"
  proof
    assume ok: "labels_ok df"
    let ?d0 = "metainfo \<lparr> data = df, features = df, target = None, meta = no_meta \<rparr>"
    have i: "init (Some df) = Inr ?d0" by (simp add: init_def)
    have f: "features ?d0 = df" by (simp add: features_metainfo)
    have m: "meta ?d0 = build_meta ?d0" by (rule meta_metainfo)
    from ok f have l: "labels_ok (features ?d0)" by simp
    from build_meta_partitions[OF l] m have "partitions (meta ?d0) (features ?d0)" by simp
    with i m l show "\<exists>d0. init (Some df) = Inr d0 \<and> meta d0 = build_meta d0
        \<and> labels_ok (features d0) \<and> partitions (meta d0) (features d0)"
      by blast
  qed
  have 3: "meta d = build_meta d \<and> labels_ok (features d) \<and> apply_mutation mut d = Inr d'
         \<longrightarrow> meta d' = build_meta d' \<and> labels_ok (features d')
             \<and> partitions (meta d') (features d')"
  proof
    assume a: "meta d = build_meta d \<and> labels_ok (features d) \<and> apply_mutation mut d = Inr d'"
    then have c: "meta d' = build_meta d' \<and> labels_ok (features d')"
      by (intro apply_mutation_consistent[of d mut d']) simp_all
    with build_meta_partitions[of d']
    show "meta d' = build_meta d' \<and> labels_ok (features d')
          \<and> partitions (meta d') (features d')"
      by simp
  qed
  have 4: "distinct (map cname t) \<longrightarrow> labels_ok t"
    by (simp add: labels_ok_distinct)
  from 1 2 3 4 show ?thesis by (intro conjI)
qed

lemma example_frame_distinct: "distinct (map cname example_frame)"
  by (simp add: example_defs)

lemma example_set_target:
  "apply_mutation (Set_target ''y'') example_initial = Inr example_with_target"
  by (simp add: example_initial_def example_defs eval_defs)

lemma example_scale:
  "apply_mutation (Scale zero_scaler (PStr ''numerical'')) example_with_target
   = Inr example_scaled"
  by (simp add: example_scaled_def col_A_scaled_def example_defs eval_defs scale_def
        transform_features_def zero_scaler_def)

lemma example_initial_current:
  "meta example_initial = build_meta example_initial \<and> labels_ok (features example_initial)"
  by (simp add: example_initial_def meta_metainfo features_metainfo labels_ok_distinct
        example_frame_distinct)

lemma example_with_target_current:
  "meta example_with_target = build_meta example_with_target
   \<and> labels_ok (features example_with_target)"
  using example_with_target_wf by (simp add: labels_ok_distinct)

theorem meta_partitions_columns_witness:
  "distinct (map cname example_frame) \<and> labels_ok example_frame
   \<and> (\<exists>d0. init (Some example_frame) = Inr d0 \<and> partitions (meta d0) (features d0))
   \<and> apply_mutation (Set_target ''y'') example_initial = Inr example_with_target
   \<and> partitions (meta example_with_target) (features example_with_target)
   \<and> m_numerical (meta example_with_target) = [''A'']
   \<and> m_categorical (meta example_with_target) = [''B'']
   \<and> m_categorical_na (meta example_with_target) = [''B'']
   \<and> m_complete (meta example_with_target) = [''A'']
   \<and> apply_mutation (Scale zero_scaler (PStr ''numerical'')) example_with_target
       = Inr example_scaled
   \<and> partitions (meta example_scaled) (features example_scaled)
   \<and> partitions (meta (metainfo example_scaled)) (features (metainfo example_scaled))"
proof -
  note d = example_frame_distinct
  note l = meta_partitions_columns [where t = example_frame, THEN conjunct2, THEN conjunct2,
      THEN conjunct2, THEN mp, OF d]
  note i = meta_partitions_columns [where df = example_frame, THEN conjunct2, THEN conjunct1,
      THEN mp, OF l]
  have a: "meta example_initial = build_meta example_initial
      \<and> labels_ok (features example_initial)
      \<and> apply_mutation (Set_target ''y'') example_initial = Inr example_with_target"
    using example_initial_current example_set_target by simp
  note s = meta_partitions_columns [where d = example_initial and mut = "Set_target ''y''"
      and d' = example_with_target, THEN conjunct2, THEN conjunct2, THEN conjunct1, THEN mp,
      OF a]
  have b: "meta example_with_target = build_meta example_with_target
      \<and> labels_ok (features example_with_target)
      \<and> apply_mutation (Scale zero_scaler (PStr ''numerical'')) example_with_target
          = Inr example_scaled"
    using example_with_target_current example_scale by simp
  note c = meta_partitions_columns [where d = example_with_target
      and mut = "Scale zero_scaler (PStr ''numerical'')" and d' = example_scaled,
      THEN conjunct2, THEN conjunct2, THEN conjunct1, THEN mp, OF b]
  note m = meta_partitions_columns [where d = example_scaled, THEN conjunct1, THEN mp]
  have e: "m_numerical (meta example_with_target) = [''A'']
     \<and> m_categorical (meta example_with_target) = [''B'']
     \<and> m_categorical_na (meta example_with_target) = [''B'']
     \<and> m_complete (meta example_with_target) = [''A'']"
    by (simp add: example_defs eval_defs)
  from i have i': "\<exists>d0. init (Some example_frame) = Inr d0 \<and> partitions (meta d0) (features d0)"
    by blast
  from c m have m': "partitions (meta (metainfo example_scaled)) (features (metainfo example_scaled))"
    by blast
  from s have s': "partitions (meta example_with_target) (features example_with_target)"
    by blast
  from c have c': "partitions (meta example_scaled) (features example_scaled)"
    by blast
  from e have e1: "m_numerical (meta example_with_target) = [''A'']"
    and e2: "m_categorical (meta example_with_target) = [''B'']"
    and e3: "m_categorical_na (meta example_with_target) = [''B'']"
    and e4: "m_complete (meta example_with_target) = [''A'']"
    by blast+
  from d l i' example_set_target s' e1 e2 e3 e4 example_scale c' m' show ?thesis
    by (intro conjI)
qed

end
